theory Spec2Isabelle
  imports Main "HOL-Library.Sublist"
begin

section \<open>Values of the Python runtime\<close>

text \<open>
  The chatbot of \<^verbatim>\<open>src/sse_chatbot.py\<close> works on Python strings, on the bytes lines of
  a streamed HTTP body and on the values that \<^verbatim>\<open>json.loads\<close> returns. A Python
  \<^verbatim>\<open>str\<close> is a \<^typ>\<open>string\<close>, one \<^typ>\<open>char\<close> for each character of the text, and a
  \<^verbatim>\<open>bytes\<close> line is a \<^typ>\<open>string\<close> as well, one \<^typ>\<open>char\<close> for each byte.

  A JSON object is a Python dict, kept as an association list that is read with
  \<^const>\<open>map_of\<close>; \<^verbatim>\<open>json.loads\<close> binds every key once. The code never looks into a
  number, so a float is kept as the text of its literal; \<^verbatim>\<open>json.loads\<close> also reads
  \<^verbatim>\<open>NaN\<close>, \<^verbatim>\<open>Infinity\<close> and \<^verbatim>\<open>-Infinity\<close> as floats, which JSON does not have.
\<close>

datatype json =
    JNull
  | JBool bool
  | JInt int
  | JFloat string
  | JStr string
  | JArr "json list"
  | JObj "(string \<times> json) list"

text \<open>
  Exceptions. \<open>Timeout\<close>, \<open>RequestException\<close> and \<open>OtherException\<close> come from the
  libraries and carry their text \<^verbatim>\<open>str(e)\<close>; \<open>Timeout\<close> is the subclass of
  \<open>RequestException\<close> that the first handler of \<^verbatim>\<open>chat\<close> names, and \<open>OtherException\<close>
  is any other subclass of \<^verbatim>\<open>Exception\<close> (the \<^verbatim>\<open>RecursionError\<close> of \<^verbatim>\<open>json.loads\<close> on a
  deeply nested text, for one). The built-in ones are raised by the interpreter inside
  \<^verbatim>\<open>chat\<close>. \<open>KeyboardInterrupt\<close> is the one that is no subclass of \<^verbatim>\<open>Exception\<close>.
\<close>

datatype exn =
    Timeout string
  | RequestException string
  | OtherException string
  | UnicodeDecodeError
  | JSONDecodeError
  | TypeError
  | KeyError
  | AttributeError
  | IndexError
  | KeyboardInterrupt

fun and_then :: "exn + 'a \<Rightarrow> ('a \<Rightarrow> exn + 'b) \<Rightarrow> exn + 'b" where
  "and_then (Inl e) f = Inl e"
| "and_then (Inr x) f = f x"

text \<open>\<^verbatim>\<open>needle in haystack\<close> on two strings: the needle occurs as a contiguous part.\<close>

fun str_contains :: "string \<Rightarrow> string \<Rightarrow> bool" where
  "str_contains needle [] = (needle = [])"
| "str_contains needle (c # cs) = (prefix needle (c # cs) \<or> str_contains needle cs)"

text \<open>
  \<^verbatim>\<open>key in x\<close> for a string \<open>key\<close>: key membership on a dict, element membership on a
  list, substring test on a string, \<^verbatim>\<open>TypeError\<close> on a number, a bool and \<^verbatim>\<open>None\<close>.
\<close>

fun py_in :: "string \<Rightarrow> json \<Rightarrow> exn + bool" where
  "py_in key (JObj kvs) = Inr (map_of kvs key \<noteq> None)"
| "py_in key (JArr vs) = Inr (List.member vs (JStr key))"
| "py_in key (JStr s) = Inr (str_contains key s)"
| "py_in key _ = Inl TypeError"

text \<open>\<^verbatim>\<open>x[key]\<close> for a string \<open>key\<close>: only a dict can be subscripted by a string.\<close>

fun py_getitem :: "json \<Rightarrow> string \<Rightarrow> exn + json" where
  "py_getitem (JObj kvs) key = (case map_of kvs key of None \<Rightarrow> Inl KeyError | Some v \<Rightarrow> Inr v)"
| "py_getitem _ key = Inl TypeError"

text \<open>\<^verbatim>\<open>len(x)\<close>: defined on lists, strings and dicts.\<close>

fun py_len :: "json \<Rightarrow> exn + nat" where
  "py_len (JArr vs) = Inr (length vs)"
| "py_len (JStr s) = Inr (length s)"
| "py_len (JObj kvs) = Inr (length (remdups (map fst kvs)))"
| "py_len _ = Inl TypeError"

text \<open>
  \<^verbatim>\<open>x[0]\<close>: the first element of a list, the first character of a string (as a
  string), \<^verbatim>\<open>IndexError\<close> when either is empty. The keys of a dict made by
  \<^verbatim>\<open>json.loads\<close> are strings, so looking up \<open>0\<close> in one is a \<^verbatim>\<open>KeyError\<close>.
\<close>

fun py_getitem0 :: "json \<Rightarrow> exn + json" where
  "py_getitem0 (JArr []) = Inl IndexError"
| "py_getitem0 (JArr (v # vs)) = Inr v"
| "py_getitem0 (JStr []) = Inl IndexError"
| "py_getitem0 (JStr (c # cs)) = Inr (JStr [c])"
| "py_getitem0 (JObj kvs) = Inl KeyError"
| "py_getitem0 _ = Inl TypeError"

text \<open>\<^verbatim>\<open>x.get(key, default)\<close>: a method of dicts only.\<close>

fun py_get :: "json \<Rightarrow> string \<Rightarrow> json \<Rightarrow> exn + json" where
  "py_get (JObj kvs) key dflt = Inr (case map_of kvs key of None \<Rightarrow> dflt | Some v \<Rightarrow> v)"
| "py_get _ key dflt = Inl AttributeError"

text \<open>\<^verbatim>\<open>s += x\<close> on a string \<open>s\<close>: only a string can be appended.\<close>

fun py_iadd :: "string \<Rightarrow> json \<Rightarrow> exn + string" where
  "py_iadd s (JStr t) = Inr (s @ t)"
| "py_iadd s _ = Inl TypeError"

section \<open>The session\<close>

text \<open>A message is the dict \<^verbatim>\<open>{"role": ..., "content": ...}\<close>.\<close>

record message =
  role :: string
  content :: string

record session =
  api_key :: string
  api_url :: string
  model :: string
  messages :: "message list"
  system_message :: string

definition init :: "string \<Rightarrow> string \<Rightarrow> session" where
  "init key mdl =
     \<lparr>api_key = key,
      api_url = ''https://api.openai.com/v1/chat/completions'',
      model = mdl,
      messages = [],
      system_message = ''You are a helpful assistant.''\<rparr>"

text \<open>What \<^verbatim>\<open>print\<close> wrote, in order.\<close>

datatype printed =
    PrintContent json
  | PrintNewline
  | PrintLine string

definition set_system_message :: "string \<Rightarrow> session \<Rightarrow> session" where
  "set_system_message message s = s\<lparr>system_message := message\<rparr>"

definition clear_conversation :: "session \<Rightarrow> session \<times> printed list" where
  "clear_conversation s = (s\<lparr>messages := []\<rparr>, [PrintLine ''Conversation cleared.''])"

section \<open>The transport and the runtime\<close>

record request =
  url :: string
  headers :: "(string \<times> string) list"
  payload_model :: string
  payload_max_tokens :: nat
  payload_stream :: bool
  payload_messages :: "message list"
  timeout :: nat

text \<open>
  A streamed response: what \<^verbatim>\<open>raise_for_status\<close> raises, if anything, the bytes
  lines that \<^verbatim>\<open>iter_lines\<close> yields, and the exception with which the iterator ends
  after them (\<open>None\<close> at the natural end of the body). The body is finite.
\<close>

record response =
  raise_for_status :: "exn option"
  iter_lines :: "string list"
  iter_end :: "exn option"

text \<open>
  The library functions that \<^verbatim>\<open>chat\<close> calls: \<^verbatim>\<open>requests.post\<close>,
  \<^verbatim>\<open>bytes.decode('utf-8')\<close> (\<open>None\<close> for \<^verbatim>\<open>UnicodeDecodeError\<close>), \<^verbatim>\<open>json.loads\<close>
  (which raises \<open>JSONDecodeError\<close> on a text that is not JSON) and the text \<^verbatim>\<open>str(e)\<close>
  of a built-in exception. Writing to standard output is taken to succeed.
\<close>

record env =
  post :: "request \<Rightarrow> exn + response"
  decode_utf8 :: "string \<Rightarrow> string option"
  json_loads :: "string \<Rightarrow> exn + json"
  builtin_str :: "exn \<Rightarrow> string"

fun str_exn :: "env \<Rightarrow> exn \<Rightarrow> string" where
  "str_exn ev (Timeout m) = m"
| "str_exn ev (RequestException m) = m"
| "str_exn ev (OtherException m) = m"
| "str_exn ev e = builtin_str ev e"

section \<open>chat\<close>

text \<open>Lines 42 to 68 of \<^verbatim>\<open>chat\<close>: the message list and the request around it.\<close>

definition full_messages :: "session \<Rightarrow> message list" where
  "full_messages s = [\<lparr>role = ''system'', content = system_message s\<rparr>] @ messages s"

definition build_request :: "session \<Rightarrow> request" where
  "build_request s =
     \<lparr>url = api_url s,
      headers =
        [(''Authorization'', ''Bearer '' @ api_key s),
         (''Content-Type'', ''application/json''),
         (''Accept'', ''text/event-stream'')],
      payload_model = model s,
      payload_max_tokens = 4096,
      payload_stream = True,
      payload_messages = full_messages s,
      timeout = 30\<rparr>"

text \<open>
  Lines 101 to 104: the content of the first choice's delta, \<open>None\<close> when the event has
  no such content, an exception where an operation does not apply to the value.
\<close>

definition delta_content :: "json \<Rightarrow> exn + json option" where
  "delta_content event_data =
     and_then (py_in ''choices'' event_data) (\<lambda>has_choices.
       if \<not> has_choices then Inr None
       else and_then (py_getitem event_data ''choices'') (\<lambda>choices.
         and_then (py_len choices) (\<lambda>n.
           if \<not> 0 < n then Inr None
           else and_then (py_getitem0 choices) (\<lambda>choice.
             and_then (py_get choice ''delta'' (JObj [])) (\<lambda>delta.
               and_then (py_in ''content'' delta) (\<lambda>has_content.
                 if \<not> has_content then Inr None
                 else and_then (py_getitem delta ''content'') (\<lambda>c. Inr (Some c))))))))"

text \<open>
  How one pass through the body of the \<^verbatim>\<open>for\<close> loop ends: it goes on to the next
  line, it leaves the loop by \<^verbatim>\<open>break\<close>, or it raises.
\<close>

datatype flow = Next | Break | Raise exn

text \<open>
  Lines 96 to 106, the body of the inner \<^verbatim>\<open>try\<close>, on the standard output so far and
  \<^verbatim>\<open>assistant_message\<close>. The content is printed before it is appended.
\<close>

definition try_event ::
  "env \<Rightarrow> string \<Rightarrow> printed list \<times> string \<Rightarrow> flow \<times> printed list \<times> string" where
  "try_event ev data st =
     (case st of (out, assistant_message) \<Rightarrow>
        (case json_loads ev data of
           Inl e \<Rightarrow> (Raise e, out, assistant_message)
         | Inr event_data \<Rightarrow>
             (case delta_content event_data of
                Inl e \<Rightarrow> (Raise e, out, assistant_message)
              | Inr None \<Rightarrow> (Next, out, assistant_message)
              | Inr (Some c) \<Rightarrow>
                  (case py_iadd assistant_message c of
                     Inl e \<Rightarrow> (Raise e, out @ [PrintContent c], assistant_message)
                   | Inr msg \<Rightarrow> (Next, out @ [PrintContent c], msg)))))"

text \<open>
  Lines 83 to 109, one pass through the body of the loop. The inner handler catches
  \<^verbatim>\<open>json.JSONDecodeError\<close> and nothing else, and goes on with the next line.
\<close>

definition loop_body ::
  "env \<Rightarrow> string \<Rightarrow> printed list \<times> string \<Rightarrow> flow \<times> printed list \<times> string" where
  "loop_body ev line st =
     (if line = [] then (Next, st)
      else (case decode_utf8 ev line of
        None \<Rightarrow> (Raise UnicodeDecodeError, st)
      | Some text \<Rightarrow>
          (if \<not> prefix ''data: '' text then (Next, st)
           else (let data = drop 6 text in
             (if data = ''[DONE]'' then (Break, st)
              else (case try_event ev data st of
                (f, st') \<Rightarrow> if f = Raise JSONDecodeError then (Next, st') else (f, st')))))))"

text \<open>
  The \<^verbatim>\<open>for\<close> loop of line 82 over the lines of the body; the first component is the
  exception that ended it, if one did.
\<close>

fun for_lines ::
  "env \<Rightarrow> string list \<Rightarrow> exn option \<Rightarrow> printed list \<times> string
     \<Rightarrow> exn option \<times> printed list \<times> string" where
  "for_lines ev [] ending st = (ending, st)"
| "for_lines ev (line # rest) ending st =
     (case loop_body ev line st of
        (Next, st') \<Rightarrow> for_lines ev rest ending st'
      | (Break, st') \<Rightarrow> (None, st')
      | (Raise e, st') \<Rightarrow> (Some e, st'))"

text \<open>
  The body of the \<^verbatim>\<open>try\<close>, lines 41 to 116: the value returned or the exception
  raised, the session and the output.
\<close>

definition chat_try :: "env \<Rightarrow> session \<Rightarrow> (exn + string) \<times> session \<times> printed list" where
  "chat_try ev s =
     (case post ev (build_request s) of
        Inl e \<Rightarrow> (Inl e, s, [])
      | Inr resp \<Rightarrow>
          (case raise_for_status resp of
             Some e \<Rightarrow> (Inl e, s, [])
           | None \<Rightarrow>
               (case for_lines ev (iter_lines resp) (iter_end resp) ([], []) of
                  (Some e, out, assistant_message) \<Rightarrow> (Inl e, s, out)
                | (None, out, assistant_message) \<Rightarrow>
                    (Inr assistant_message,
                     s\<lparr>messages := messages s @
                         [\<lparr>role = ''assistant'', content = assistant_message\<rparr>]\<rparr>,
                     out @ [PrintNewline]))))"

text \<open>\<^verbatim>\<open>list.pop()\<close>: the list without its last element, \<^verbatim>\<open>IndexError\<close> on \<open>[]\<close>.\<close>

definition pop :: "'a list \<Rightarrow> exn + 'a list" where
  "pop xs = (if xs = [] then Inl IndexError else Inr (butlast xs))"

text \<open>
  The three statements every handler of \<^verbatim>\<open>chat\<close> ends with: print the error, pop the
  history, return the error text. An exception raised here leaves \<^verbatim>\<open>chat\<close>.
\<close>

definition rollback ::
  "string \<Rightarrow> session \<Rightarrow> printed list \<Rightarrow> (exn + string) \<times> session \<times> printed list" where
  "rollback error_msg s out =
     (case pop (messages s) of
        Inl e \<Rightarrow> (Inl e, s, out @ [PrintLine (''Error: '' @ error_msg)])
      | Inr ms \<Rightarrow>
          (Inr error_msg, s\<lparr>messages := ms\<rparr>, out @ [PrintLine (''Error: '' @ error_msg)]))"

text \<open>The \<^verbatim>\<open>except\<close> clauses of lines 118 to 132, in their order.\<close>

fun chat_except ::
  "env \<Rightarrow> exn \<Rightarrow> session \<Rightarrow> printed list \<Rightarrow> (exn + string) \<times> session \<times> printed list" where
  "chat_except ev (Timeout m) s out = rollback ''Request timed out'' s out"
| "chat_except ev (RequestException m) s out =
     rollback (''Network error: '' @ str_exn ev (RequestException m)) s out"
| "chat_except ev KeyboardInterrupt s out = (Inl KeyboardInterrupt, s, out)"
| "chat_except ev e s out = rollback (''Error: '' @ str_exn ev e) s out"

definition record_user :: "string \<Rightarrow> session \<Rightarrow> session" where
  "record_user user_input s =
     s\<lparr>messages := messages s @ [\<lparr>role = ''user'', content = user_input\<rparr>]\<rparr>"

definition chat :: "env \<Rightarrow> string \<Rightarrow> session \<Rightarrow> (exn + string) \<times> session \<times> printed list" where
  "chat ev user_input s =
     (case chat_try ev (record_user user_input s) of
        (Inr reply, s', out) \<Rightarrow> (Inr reply, s', out)
      | (Inl e, s', out) \<Rightarrow> chat_except ev e s' out)"

text \<open>
  The chatbot object is shared with the code that calls \<^verbatim>\<open>chat\<close>, and that code can
  change it while the exchange runs (from a second thread, or from a hook of the
  transport). \<open>meanwhile\<close> is what it has done to the session by the time the body of the
  \<^verbatim>\<open>try\<close> has read the body of the response or raised: the request was built before, and
  the append of line 114 and the pop of a handler come after.
\<close>

definition chat_during ::
  "(session \<Rightarrow> session) \<Rightarrow> env \<Rightarrow> string \<Rightarrow> session
     \<Rightarrow> (exn + string) \<times> session \<times> printed list" where
  "chat_during meanwhile ev user_input s =
     (case chat_try ev (record_user user_input s) of
        (Inr reply, s', out) \<Rightarrow>
          (Inr reply,
           (meanwhile (record_user user_input s))\<lparr>messages :=
              messages (meanwhile (record_user user_input s)) @
                [\<lparr>role = ''assistant'', content = reply\<rparr>]\<rparr>,
           out)
      | (Inl e, s', out) \<Rightarrow> chat_except ev e (meanwhile (record_user user_input s)) out)"

section \<open>Results of a call, and sequences of calls\<close>

text \<open>The three components of what \<^const>\<open>chat\<close> gives back.\<close>

abbreviation returned :: "'a \<times> 'b \<times> 'c \<Rightarrow> 'a" where
  "returned r \<equiv> fst r"

abbreviation state_after :: "'a \<times> 'b \<times> 'c \<Rightarrow> 'b" where
  "state_after r \<equiv> fst (snd r)"

abbreviation printed_by :: "'a \<times> 'b \<times> 'c \<Rightarrow> 'c" where
  "printed_by r \<equiv> snd (snd r)"

text \<open>The content fragments among what was printed, in the order of printing.\<close>

fun fragments :: "printed list \<Rightarrow> json list" where
  "fragments [] = []"
| "fragments (PrintContent c # ps) = c # fragments ps"
| "fragments (p # ps) = fragments ps"

definition system_entries :: "message list \<Rightarrow> message list" where
  "system_entries ms = filter (\<lambda>m. role m = ''system'') ms"

text \<open>
  The calls a client makes on one chatbot object. Each \<^verbatim>\<open>chat\<close> meets its own
  transport. The object keeps the state a call left, also when the call raised.
\<close>

datatype op = Chat env string | Clear | SetSystem string

fun apply_op :: "op \<Rightarrow> session \<Rightarrow> session" where
  "apply_op (Chat ev user_input) s = state_after (chat ev user_input s)"
| "apply_op Clear s = fst (clear_conversation s)"
| "apply_op (SetSystem message) s = set_system_message message s"

definition run :: "op list \<Rightarrow> session \<Rightarrow> session" where
  "run ops s = fold apply_op ops s"

section \<open>A runtime for the examples\<close>

text \<open>
  The library functions on the inputs of the examples below. An ASCII line decodes to
  itself, and a line with a byte from \<open>0x80\<close> on stands for one that is not UTF-8 (the
  byte \<open>0xFF\<close> occurs in no UTF-8 text). \<open>sample_loads\<close> reads the payloads that the
  examples use as \<^verbatim>\<open>json.loads\<close> does; \<^verbatim>\<open>[DONE]\<close> is none of its values.
  \<open>sample_str\<close> stands for the text of a built-in exception.
\<close>

definition ascii_decode :: "string \<Rightarrow> string option" where
  "ascii_decode bs = (if list_all (\<lambda>b. of_char b < (128::nat)) bs then Some bs else None)"

definition sample_loads :: "string \<Rightarrow> exn + json" where
  \<open>sample_loads data =
     (if data = ''5'' then Inr (JInt 5)
      else if data = ''{"choices":[{"delta":{"content":"Hi"}}]}''
        then Inr (JObj [(''choices'',
               JArr [JObj [(''delta'', JObj [(''content'', JStr ''Hi'')])]])])
      else if data = ''{"choices":[{"delta":{"role":"assistant"}}]}''
        then Inr (JObj [(''choices'',
               JArr [JObj [(''delta'', JObj [(''role'', JStr ''assistant'')])]])])
      else if data = ''{"choices":[{"delta":{"content":null}}]}''
        then Inr (JObj [(''choices'',
               JArr [JObj [(''delta'', JObj [(''content'', JNull)])]])])
      else if data = ''null'' then Inr JNull
      else if data = ''NaN'' then Inr (JFloat ''NaN'')
      else Inl JSONDecodeError)\<close>

fun sample_str :: "exn \<Rightarrow> string" where
  "sample_str UnicodeDecodeError = ''UnicodeDecodeError''"
| "sample_str JSONDecodeError = ''JSONDecodeError''"
| "sample_str TypeError = ''TypeError''"
| "sample_str KeyError = ''KeyError''"
| "sample_str AttributeError = ''AttributeError''"
| "sample_str IndexError = ''IndexError''"
| "sample_str e = []"

text \<open>A transport that answers with status 200 and the given body.\<close>

definition serve :: "string list \<Rightarrow> exn option \<Rightarrow> env" where
  "serve ls ending =
     \<lparr>post = (\<lambda>req. Inr \<lparr>raise_for_status = None, iter_lines = ls, iter_end = ending\<rparr>),
      decode_utf8 = ascii_decode,
      json_loads = sample_loads,
      builtin_str = sample_str\<rparr>"

text \<open>A transport on which \<^verbatim>\<open>requests.post\<close> raises.\<close>

definition refuse :: "exn \<Rightarrow> env" where
  "refuse e =
     \<lparr>post = (\<lambda>req. Inl e),
      decode_utf8 = ascii_decode,
      json_loads = sample_loads,
      builtin_str = sample_str\<rparr>"

definition hi_line :: string where
  \<open>hi_line = ''data: {"choices":[{"delta":{"content":"Hi"}}]}''\<close>

definition role_line :: string where
  \<open>role_line = ''data: {"choices":[{"delta":{"role":"assistant"}}]}''\<close>

definition sample_lines :: "string list" where
  "sample_lines = [hi_line, [], role_line, '': ping'', hi_line, ''data: [DONE]'', hi_line]"

definition sample_response :: response where
  "sample_response = \<lparr>raise_for_status = None, iter_lines = sample_lines, iter_end = None\<rparr>"

text \<open>
  A content chunk cut after the first two of the three bytes \<open>E4 B8 AD\<close> of a character.
\<close>

definition truncated_line :: string where
  \<open>truncated_line = ''data: {"choices":[{"delta":{"content":"'' @ [CHR 0xE4, CHR 0xB8]\<close>

text \<open>Other code clears the conversation.\<close>

definition cleared :: "session \<Rightarrow> session" where
  "cleared s = fst (clear_conversation s)"

definition null_content_line :: string where
  \<open>null_content_line = ''data: {"choices":[{"delta":{"content":null}}]}''\<close>

definition quiet_lines :: "string list" where
  "quiet_lines =
     [role_line, [], '': ping'', ''data: {not valid json}'', ''data: [DONE]'', hi_line]"

definition quiet_response :: response where
  "quiet_response = \<lparr>raise_for_status = None, iter_lines = quiet_lines, iter_end = None\<rparr>"

definition chatbot :: session where
  "chatbot = init ''sk-test'' ''gpt-4o-mini''"

text \<open>The chatbot after one completed turn.\<close>

definition talked :: session where
  "talked = state_after (chat (serve sample_lines None) ''hello'' chatbot)"

text \<open>
  A session: a new system prompt, a turn that completes, one that times out and one that
  the user interrupts while the body streams.
\<close>

definition sample_ops :: "op list" where
  "sample_ops =
     [SetSystem ''Answer in one word.'',
      Chat (serve sample_lines None) ''hello'',
      Chat (refuse (Timeout ''read timed out'')) ''again'',
      Chat (serve [hi_line] (Some KeyboardInterrupt)) ''more'']"

section \<open>The loop and the exchange\<close>

lemmas sample_defs = serve_def refuse_def ascii_decode_def sample_loads_def hi_line_def
  role_line_def null_content_line_def loop_body_def try_event_def delta_content_def chat_try_def chat_def record_user_def
  build_request_def full_messages_def rollback_def pop_def chatbot_def init_def

lemma fragments_append: "fragments (xs @ ys) = fragments xs @ fragments ys"
  by (induction xs rule: fragments.induct) simp_all

lemma fragments_contents: "fragments (map (\<lambda>t. PrintContent (JStr t)) fs) = map JStr fs"
  by (induction fs) simp_all

lemma py_iadd_Inl: "py_iadd s v = Inl e \<Longrightarrow> e = TypeError"
  by (cases v) simp_all

lemma py_iadd_Inr: "py_iadd s v = Inr msg \<Longrightarrow> \<exists>t. v = JStr t \<and> msg = s @ t"
  by (cases v) simp_all

text \<open>
  An event that is a number, a bool or \<^verbatim>\<open>None\<close> fails the first membership test, and
  a content that is no string is printed and then fails the append.
\<close>

lemma scalar_event_raises:
  "delta_content (JInt n) = Inl TypeError"
  "delta_content (JFloat x) = Inl TypeError"
  "delta_content (JBool b) = Inl TypeError"
  "delta_content JNull = Inl TypeError"
  by (simp_all add: delta_content_def)

lemma try_event_raises:
  assumes "json_loads ev data = Inr event_data"
    and "delta_content event_data = Inl e"
  shows "try_event ev data st = (Raise e, st)"
  using assms by (cases st) (simp add: try_event_def)

text \<open>
  What the inner \<^verbatim>\<open>try\<close> can do: nothing, print and append one string, or raise, having
  printed at most the one content it could not append, which is no \<open>JSONDecodeError\<close>.
\<close>

lemma try_event_cases:
  assumes "try_event ev data (out, acc) = (f, out', acc')"
  shows "(f = Next \<and> out' = out \<and> acc' = acc)
    \<or> (\<exists>t. f = Next \<and> out' = out @ [PrintContent (JStr t)] \<and> acc' = acc @ t)
    \<or> (\<exists>e. f = Raise e \<and> out' = out \<and> acc' = acc)
    \<or> (\<exists>e c. f = Raise e \<and> e \<noteq> JSONDecodeError \<and> out' = out @ [PrintContent c] \<and> acc' = acc)"
  using assms unfolding try_event_def
  by (auto split: sum.splits option.splits dest: py_iadd_Inr py_iadd_Inl)

text \<open>A pass that goes on either changed nothing or printed and appended one string.\<close>

lemma loop_body_Next:
  assumes "loop_body ev line (out, acc) = (Next, out', acc')"
  shows "(out' = out \<and> acc' = acc)
           \<or> (\<exists>t. out' = out @ [PrintContent (JStr t)] \<and> acc' = acc @ t)"
proof (cases "try_event ev (drop 6 (the (decode_utf8 ev line))) (out, acc)")
  case (fields f o1 a1)
  from try_event_cases [OF fields] assms fields show ?thesis
    by (auto simp: loop_body_def Let_def split: if_splits option.splits)
qed

lemma loop_body_Break:
  assumes "loop_body ev line st = (Break, st')"
  shows "st' = st"
proof (cases st)
  case (Pair out acc)
  show ?thesis
  proof (cases "try_event ev (drop 6 (the (decode_utf8 ev line))) (out, acc)")
    case (fields f o1 a1)
    from try_event_cases [OF fields] assms fields Pair show ?thesis
      by (auto simp: loop_body_def Let_def split: if_splits option.splits)
  qed
qed

text \<open>A loop that ends without an exception has printed exactly what it accumulated.\<close>

lemma for_lines_None:
  "for_lines ev ls ending (out, acc) = (None, out', acc') \<Longrightarrow>
     \<exists>fs. out' = out @ map (\<lambda>t. PrintContent (JStr t)) fs \<and> acc' = acc @ concat fs"
proof (induction ls arbitrary: out acc)
  case Nil
  then show ?case by simp
next
  case (Cons line rest)
  obtain f o1 a1 where lb: "loop_body ev line (out, acc) = (f, o1, a1)"
    by (metis prod_cases3)
  show ?case
  proof (cases f)
    case Next
    with Cons.prems lb have "for_lines ev rest ending (o1, a1) = (None, out', acc')" by simp
    from Cons.IH [OF this] obtain fs where
      fs: "out' = o1 @ map (\<lambda>t. PrintContent (JStr t)) fs" "acc' = a1 @ concat fs" by blast
    from loop_body_Next lb Next
    consider "o1 = out \<and> a1 = acc" | t where "o1 = out @ [PrintContent (JStr t)]" "a1 = acc @ t"
      by blast
    then show ?thesis
    proof cases
      case 1
      with fs show ?thesis by blast
    next
      case 2
      with fs have "out' = out @ map (\<lambda>t. PrintContent (JStr t)) (t # fs)
          \<and> acc' = acc @ concat (t # fs)"
        by simp
      then show ?thesis by blast
    qed
  next
    case Break
    with Cons.prems lb loop_body_Break [of ev line "(out, acc)" "(o1, a1)"]
    have "out' = out @ map (\<lambda>t. PrintContent (JStr t)) [] \<and> acc' = acc @ concat []" by simp
    then show ?thesis by blast
  next
    case (Raise e)
    with Cons.prems lb show ?thesis by simp
  qed
qed

lemma chat_try_succeeds:
  assumes "post ev (build_request s) = Inr resp"
    and "raise_for_status resp = None"
    and "for_lines ev (iter_lines resp) (iter_end resp) ([], []) = (None, out, acc)"
  shows "chat_try ev s =
     (Inr acc, s\<lparr>messages := messages s @ [\<lparr>role = ''assistant'', content = acc\<rparr>]\<rparr>,
      out @ [PrintNewline])"
  using assms by (simp add: chat_try_def)

lemma chat_try_Inr:
  assumes "returned (chat_try ev s) = Inr reply"
  shows "\<exists>fs. chat_try ev s =
           (Inr (concat fs),
            s\<lparr>messages := messages s @ [\<lparr>role = ''assistant'', content = concat fs\<rparr>]\<rparr>,
            map (\<lambda>t. PrintContent (JStr t)) fs @ [PrintNewline])"
proof -
  from assms obtain resp where p: "post ev (build_request s) = Inr resp"
    by (auto simp: chat_try_def split: sum.splits)
  from assms p have r: "raise_for_status resp = None"
    by (auto simp: chat_try_def split: option.splits)
  obtain x out acc where
    f: "for_lines ev (iter_lines resp) (iter_end resp) ([], []) = (x, out, acc)"
    by (metis prod_cases3)
  with assms p r have x: "x = None"
    by (auto simp: chat_try_def split: option.splits)
  from for_lines_None f x obtain fs where
    "out = [] @ map (\<lambda>t. PrintContent (JStr t)) fs" "acc = [] @ concat fs" by blast
  with p r f x show ?thesis by (auto simp: chat_try_def)
qed

text \<open>The body of the \<^verbatim>\<open>try\<close> changes the session only when it returns.\<close>

lemma chat_try_Inl:
  "returned (chat_try ev s) = Inl e \<Longrightarrow> state_after (chat_try ev s) = s"
  by (auto simp: chat_try_def split: sum.splits option.splits prod.splits)

lemma rollback_record_user:
  "rollback msg (record_user user_input s) out =
     (Inr msg, s, out @ [PrintLine (''Error: '' @ msg)])"
  by (simp add: rollback_def pop_def record_user_def)

lemma chat_except_record_user:
  "e \<noteq> KeyboardInterrupt \<Longrightarrow>
     \<exists>msg. chat_except ev e (record_user user_input s) out =
       (Inr msg, s, out @ [PrintLine (''Error: '' @ msg)])"
  by (cases e) (simp_all add: rollback_record_user)

lemma chat_failed:
  assumes "returned (chat_try ev (record_user user_input s)) = Inl e"
  shows "chat ev user_input s =
     chat_except ev e (record_user user_input s)
       (printed_by (chat_try ev (record_user user_input s)))"
proof -
  from chat_try_Inl [OF assms] assms show ?thesis
    by (cases "chat_try ev (record_user user_input s)") (simp add: chat_def)
qed

lemma chat_succeeded:
  assumes "returned (chat_try ev (record_user user_input s)) = Inr reply"
  shows "chat ev user_input s = chat_try ev (record_user user_input s)"
  using assms by (cases "chat_try ev (record_user user_input s)") (simp add: chat_def)

lemma sample_for_lines:
  "for_lines (serve sample_lines None) sample_lines None ([], []) =
     (None, [PrintContent (JStr ''Hi''), PrintContent (JStr ''Hi'')], ''HiHi'')"
  by (simp add: sample_defs sample_lines_def)

text \<open>What a call of chat leaves in the history: nothing, the user message, or the turn.\<close>

lemma chat_history:
  "messages (state_after (chat ev user_input s)) = messages s
   \<or> messages (state_after (chat ev user_input s)) =
       messages s @ [\<lparr>role = ''user'', content = user_input\<rparr>]
   \<or> (\<exists>reply. messages (state_after (chat ev user_input s)) =
       messages s @ [\<lparr>role = ''user'', content = user_input\<rparr>,
                     \<lparr>role = ''assistant'', content = reply\<rparr>])"
proof (cases "returned (chat_try ev (record_user user_input s))")
  case (Inl e)
  show ?thesis
  proof (cases "e = KeyboardInterrupt")
    case True
    with chat_failed [OF Inl] show ?thesis by (simp add: record_user_def)
  next
    case False
    from chat_except_record_user [OF False] chat_failed [OF Inl] show ?thesis
      by (metis fst_conv snd_conv)
  qed
next
  case (Inr reply)
  from chat_try_Inr [OF Inr] chat_succeeded [OF Inr] show ?thesis
    by (auto simp: record_user_def)
qed

lemma chat_no_system:
  assumes "system_entries (messages s) = []"
  shows "system_entries (messages (state_after (chat ev user_input s))) = []"
  using chat_history [of ev user_input s] assms
  by (auto simp: system_entries_def)

lemma apply_op_no_system:
  assumes "system_entries (messages s) = []"
  shows "system_entries (messages (apply_op x s)) = []"
proof (cases x)
  case (Chat ev user_input)
  with assms show ?thesis by (simp add: chat_no_system)
next
  case Clear
  then show ?thesis by (simp add: clear_conversation_def system_entries_def)
next
  case (SetSystem message)
  with assms show ?thesis by (simp add: set_system_message_def)
qed

lemma run_no_system:
  "system_entries (messages s) = [] \<Longrightarrow> system_entries (messages (run ops s)) = []"
  unfolding run_def by (induction ops arbitrary: s) (simp_all add: apply_op_no_system)

lemma sample_run:
  "run sample_ops chatbot = chatbot\<lparr>messages :=
       [\<lparr>role = ''user'', content = ''hello''\<rparr>, \<lparr>role = ''assistant'', content = ''HiHi''\<rparr>,
        \<lparr>role = ''user'', content = ''more''\<rparr>],
     system_message := ''Answer in one word.''\<rparr>"
  by (simp add: sample_ops_def run_def sample_defs sample_lines_def set_system_message_def)

lemma talked_eq:
  "talked = chatbot\<lparr>messages :=
     [\<lparr>role = ''user'', content = ''hello''\<rparr>, \<lparr>role = ''assistant'', content = ''HiHi''\<rparr>]\<rparr>"
  by (simp add: talked_def sample_defs sample_lines_def)

text \<open>Left alone, \<^const>\<open>chat_during\<close> is \<^const>\<open>chat\<close>.\<close>

lemma chat_during_alone: "chat_during (\<lambda>s. s) ev user_input s = chat ev user_input s"
proof (cases "returned (chat_try ev (record_user user_input s))")
  case (Inl e)
  with chat_try_Inl [OF Inl] show ?thesis
    by (cases "chat_try ev (record_user user_input s)") (simp add: chat_during_def chat_def)
next
  case (Inr reply)
  from chat_try_Inr [OF Inr] show ?thesis
    by (auto simp: chat_during_def chat_def)
qed

lemma chat_during_failed:
  assumes "returned (chat_try ev (record_user user_input s)) = Inl e"
  shows "chat_during meanwhile ev user_input s =
     chat_except ev e (meanwhile (record_user user_input s))
       (printed_by (chat_try ev (record_user user_input s)))"
  using assms
  by (cases "chat_try ev (record_user user_input s)") (simp add: chat_during_def)

lemma rollback_empty:
  "messages s = [] \<Longrightarrow>
     rollback msg s out = (Inl IndexError, s, out @ [PrintLine (''Error: '' @ msg)])"
  by (simp add: rollback_def pop_def)

lemma chat_except_empty:
  "e \<noteq> KeyboardInterrupt \<Longrightarrow> messages s = [] \<Longrightarrow>
     \<exists>msg. chat_except ev e s out =
       (Inl IndexError, s, out @ [PrintLine (''Error: '' @ msg)])"
  by (cases e) (simp_all add: rollback_empty)

text \<open>
  Left alone, \<^verbatim>\<open>chat\<close> returns a text, or is left by a \<^verbatim>\<open>KeyboardInterrupt\<close> that the
  exchange raised.
\<close>

lemma chat_alone_returns_or_is_interrupted:
  "(\<exists>text. returned (chat ev user_input s) = Inr text)
     \<or> returned (chat ev user_input s) = Inl KeyboardInterrupt"
proof (cases "returned (chat_try ev (record_user user_input s))")
  case (Inl e)
  show ?thesis
  proof (cases "e = KeyboardInterrupt")
    case True
    with chat_failed [OF Inl] show ?thesis by simp
  next
    case False
    from chat_except_record_user [OF False] chat_failed [OF Inl] show ?thesis
      by (metis fst_conv)
  qed
next
  case (Inr reply)
  with chat_succeeded [OF Inr] show ?thesis by simp
qed

text \<open>
  The inner handler skips a line whose payload \<^verbatim>\<open>json.loads\<close> rejects with
  \<open>JSONDecodeError\<close>; any other exception of \<^verbatim>\<open>json.loads\<close> leaves the loop.
\<close>

lemma malformed_payload_is_skipped:
  assumes "line \<noteq> []"
    and "decode_utf8 ev line = Some text"
    and "prefix ''data: '' text"
    and "drop 6 text \<noteq> ''[DONE]''"
    and "json_loads ev (drop 6 text) = Inl JSONDecodeError"
  shows "loop_body ev line st = (Next, st)
    \<and> for_lines ev (line # rest) ending st = for_lines ev rest ending st"
proof -
  from assms have "loop_body ev line st = (Next, st)"
    by (cases st) (simp add: loop_body_def try_event_def)
  then show ?thesis by simp
qed

lemma other_parse_failure_leaves_loop:
  assumes "line \<noteq> []"
    and "decode_utf8 ev line = Some text"
    and "prefix ''data: '' text"
    and "drop 6 text \<noteq> ''[DONE]''"
    and "json_loads ev (drop 6 text) = Inl e"
    and "e \<noteq> JSONDecodeError"
  shows "loop_body ev line st = (Raise e, st)
    \<and> for_lines ev (line # rest) ending st = (Some e, st)"
proof -
  from assms have "loop_body ev line st = (Raise e, st)"
    by (cases st) (simp add: loop_body_def try_event_def)
  then show ?thesis by simp
qed

lemma for_lines_stop:
  "loop_body ev line st = (Break, st) \<Longrightarrow> for_lines ev (line # rest) ending st = (None, st)"
  by simp

text \<open>Neither the lines after a pass that breaks nor the end of the body are read.\<close>

lemma for_lines_cut:
  assumes "\<And>st. loop_body ev line st = (Break, st)"
  shows "for_lines ev (before @ line # rest) ending st = for_lines ev (before @ [line]) None st"
proof (induction before arbitrary: st)
  case Nil
  show ?case by (simp add: assms)
next
  case (Cons l ls)
  show ?case
  proof (cases "loop_body ev l st")
    case (fields f out acc)
    then show ?thesis by (cases f) (simp_all add: Cons.IH)
  qed
qed

section \<open>The properties\<close>

text \<open>
  C1. In an exchange that succeeds (the request is answered, the status check passes and
  the loop over the body ends at \<^verbatim>\<open>[DONE]\<close> or at the end of the body without an
  exception), every content fragment printed is a string, \<^verbatim>\<open>chat\<close> returns their
  concatenation in the order of arrival, and the history grows by the user message and
  an assistant message with that same string.
\<close>

theorem chat_reply_is_fragments_in_order:
  assumes "post ev (build_request (record_user user_input s)) = Inr resp"
    and "raise_for_status resp = None"
    and "returned (for_lines ev (iter_lines resp) (iter_end resp) ([], [])) = None"
  shows "\<exists>fs. fragments (printed_by (chat ev user_input s)) = map JStr fs
           \<and> returned (chat ev user_input s) = Inr (concat fs)
           \<and> messages (state_after (chat ev user_input s)) =
               messages s @ [\<lparr>role = ''user'', content = user_input\<rparr>,
                             \<lparr>role = ''assistant'', content = concat fs\<rparr>]"
proof -
  obtain out acc where
    loop: "for_lines ev (iter_lines resp) (iter_end resp) ([], []) = (None, out, acc)"
    using assms(3) by (metis fst_conv prod_cases3)
  from for_lines_None [OF loop] obtain fs where
    fs: "out = map (\<lambda>t. PrintContent (JStr t)) fs" "acc = concat fs" by auto
  have "chat_try ev (record_user user_input s) =
      (Inr acc,
       (record_user user_input s)\<lparr>messages := messages (record_user user_input s) @
          [\<lparr>role = ''assistant'', content = acc\<rparr>]\<rparr>,
       out @ [PrintNewline])"
    by (rule chat_try_succeeds [OF assms(1) assms(2) loop])
  moreover from this have "chat ev user_input s = chat_try ev (record_user user_input s)"
    by (simp add: chat_def)
  ultimately have
    "fragments (printed_by (chat ev user_input s)) = map JStr fs
       \<and> returned (chat ev user_input s) = Inr (concat fs)
       \<and> messages (state_after (chat ev user_input s)) =
           messages s @ [\<lparr>role = ''user'', content = user_input\<rparr>,
                         \<lparr>role = ''assistant'', content = concat fs\<rparr>]"
    using fs by (simp add: fragments_append fragments_contents record_user_def)
  then show ?thesis by blast
qed

theorem chat_reply_is_fragments_in_order_witness:
  "post (serve sample_lines None) (build_request (record_user ''hello'' chatbot)) = Inr sample_response
   \<and> raise_for_status sample_response = None
   \<and> returned (for_lines (serve sample_lines None) (iter_lines sample_response)
        (iter_end sample_response) ([], [])) = None
   \<and> (\<exists>fs. fragments (printed_by (chat (serve sample_lines None) ''hello'' chatbot)) = map JStr fs
         \<and> returned (chat (serve sample_lines None) ''hello'' chatbot) = Inr (concat fs)
         \<and> messages (state_after (chat (serve sample_lines None) ''hello'' chatbot)) =
             messages chatbot @ [\<lparr>role = ''user'', content = ''hello''\<rparr>,
                             \<lparr>role = ''assistant'', content = concat fs\<rparr>])"
proof -
  have h1: "post (serve sample_lines None) (build_request (record_user ''hello'' chatbot)) =
      Inr sample_response"
    by (simp add: serve_def sample_response_def)
  have h2: "raise_for_status sample_response = None"
    by (simp add: sample_response_def)
  have h3: "returned (for_lines (serve sample_lines None) (iter_lines sample_response)
      (iter_end sample_response) ([], [])) = None"
    by (simp add: sample_response_def sample_for_lines)
  from chat_reply_is_fragments_in_order [OF h1 h2 h3] h1 h2 h3 show ?thesis by blast
qed

text \<open>
  C2. After any sequence of \<^verbatim>\<open>chat\<close>, \<^verbatim>\<open>clear_conversation\<close> and
  \<^verbatim>\<open>set_system_message\<close> calls on a new chatbot, the history holds no entry of role
  \<^verbatim>\<open>system\<close>, and the message list built from it, also the one that the next \<^verbatim>\<open>chat\<close>
  sends, is the entry of the current system prompt followed by the history, with that
  entry as its only one of role \<^verbatim>\<open>system\<close>.
\<close>

theorem one_system_entry_first:
  assumes "s = run ops (init key mdl)"
  shows "system_entries (messages s) = []
    \<and> full_messages s = \<lparr>role = ''system'', content = system_message s\<rparr> # messages s
    \<and> system_entries (full_messages s) = [\<lparr>role = ''system'', content = system_message s\<rparr>]
    \<and> payload_messages (build_request (record_user user_input s)) =
        \<lparr>role = ''system'', content = system_message s\<rparr> #
          messages s @ [\<lparr>role = ''user'', content = user_input\<rparr>]
    \<and> system_entries (payload_messages (build_request (record_user user_input s))) =
        [\<lparr>role = ''system'', content = system_message s\<rparr>]"
proof -
  have "system_entries (messages (init key mdl)) = []"
    by (simp add: init_def system_entries_def)
  then have inv: "system_entries (messages s) = []"
    unfolding assms by (rule run_no_system)
  then have "filter (\<lambda>m. role m = ''system'') (messages s) = []"
    by (simp add: system_entries_def)
  then show ?thesis
    by (simp add: system_entries_def full_messages_def build_request_def record_user_def)
qed

theorem one_system_entry_first_witness:
  "run sample_ops chatbot = run sample_ops (init ''sk-test'' ''gpt-4o-mini'')
   \<and> messages (run sample_ops chatbot) =
       [\<lparr>role = ''user'', content = ''hello''\<rparr>, \<lparr>role = ''assistant'', content = ''HiHi''\<rparr>,
        \<lparr>role = ''user'', content = ''more''\<rparr>]
   \<and> system_entries (messages (run sample_ops chatbot)) = []
   \<and> system_entries (payload_messages (build_request (record_user ''next'' (run sample_ops chatbot))))
       = [\<lparr>role = ''system'', content = ''Answer in one word.''\<rparr>]"
proof -
  have h: "run sample_ops chatbot = run sample_ops (init ''sk-test'' ''gpt-4o-mini'')"
    by (simp add: chatbot_def)
  note t = one_system_entry_first [OF h, of "''next''"]
  have a: "system_entries (messages (run sample_ops chatbot)) = []"
    using t by blast
  have c: "system_message (run sample_ops chatbot) = ''Answer in one word.''"
    by (simp add: sample_run)
  have b: "system_entries
      (payload_messages (build_request (record_user ''next'' (run sample_ops chatbot))))
       = [\<lparr>role = ''system'', content = ''Answer in one word.''\<rparr>]"
    using t unfolding c by blast
  have d: "messages (run sample_ops chatbot) =
       [\<lparr>role = ''user'', content = ''hello''\<rparr>, \<lparr>role = ''assistant'', content = ''HiHi''\<rparr>,
        \<lparr>role = ''user'', content = ''more''\<rparr>]"
    by (simp add: sample_run)
  from h d a b show ?thesis by blast
qed

text \<open>
  C3, at the line \<^verbatim>\<open>data: 5\<close>. The payload parses as the JSON number 5, the membership test
  \<^verbatim>\<open>'choices' in event_data\<close> raises \<^verbatim>\<open>TypeError\<close>, and the handler of line 128 ends
  the exchange: the fragment printed before is lost, the user turn is popped and \<^verbatim>\<open>chat\<close>
  returns an error text. The payload \<^verbatim>\<open>null\<close> and a delta whose content is \<^verbatim>\<open>null\<close> end
  the same way, the second after \<^verbatim>\<open>print\<close> has shown the content.
\<close>

theorem number_event_aborts_exchange:
  "decode_utf8 (serve [hi_line, ''data: 5'', hi_line] None) ''data: 5'' = Some ''data: 5''
   \<and> json_loads (serve [hi_line, ''data: 5'', hi_line] None) (drop 6 ''data: 5'') = Inr (JInt 5)
   \<and> loop_body (serve [hi_line, ''data: 5'', hi_line] None) ''data: 5''
        ([PrintContent (JStr ''Hi'')], ''Hi'') =
       (Raise TypeError, [PrintContent (JStr ''Hi'')], ''Hi'')
   \<and> chat (serve [hi_line, ''data: 5'', hi_line] None) ''hello'' chatbot =
       (Inr ''Error: TypeError'', chatbot,
        [PrintContent (JStr ''Hi''), PrintLine ''Error: Error: TypeError''])
   \<and> loop_body (serve [] None) ''data: null'' ([], []) = (Raise TypeError, [], [])
   \<and> loop_body (serve [] None) null_content_line ([], []) =
       (Raise TypeError, [PrintContent JNull], [])"
  by (simp add: sample_defs)

text \<open>
  C4. When the body of the \<^verbatim>\<open>try\<close> raises an exception that a handler of \<^verbatim>\<open>chat\<close>
  catches (any but \<^verbatim>\<open>KeyboardInterrupt\<close>), \<^verbatim>\<open>chat\<close> returns an error text and leaves the
  session as it was before the call: the handler pops exactly the user message that the
  call had appended, so the history has its former length, whatever it held.
\<close>

theorem failed_exchange_restores_history:
  assumes "returned (chat_try ev (record_user user_input s)) = Inl e"
    and "e \<noteq> KeyboardInterrupt"
  shows "state_after (chat ev user_input s) = s
    \<and> messages (state_after (chat ev user_input s)) = butlast (messages (record_user user_input s))
    \<and> length (messages (state_after (chat ev user_input s))) = length (messages s)
    \<and> (\<exists>error_msg. returned (chat ev user_input s) = Inr error_msg)"
proof -
  from chat_except_record_user [OF assms(2)] obtain msg where
    "chat_except ev e (record_user user_input s)
        (printed_by (chat_try ev (record_user user_input s))) =
      (Inr msg, s,
       printed_by (chat_try ev (record_user user_input s)) @ [PrintLine (''Error: '' @ msg)])"
    by blast
  with chat_failed [OF assms(1)] have
    "chat ev user_input s =
      (Inr msg, s,
       printed_by (chat_try ev (record_user user_input s)) @ [PrintLine (''Error: '' @ msg)])"
    by simp
  then show ?thesis by (simp add: record_user_def)
qed

theorem failed_exchange_restores_history_witness:
  "returned (chat_try (serve [hi_line, ''data: 5''] None) (record_user ''again'' talked)) =
     Inl TypeError
   \<and> TypeError \<noteq> KeyboardInterrupt
   \<and> state_after (chat (serve [hi_line, ''data: 5''] None) ''again'' talked) = talked
   \<and> length (messages (state_after (chat (serve [hi_line, ''data: 5''] None) ''again'' talked))) = 2"
proof -
  have h1: "returned (chat_try (serve [hi_line, ''data: 5''] None) (record_user ''again'' talked))
      = Inl TypeError"
    by (simp add: sample_defs talked_eq)
  have h2: "TypeError \<noteq> KeyboardInterrupt" by simp
  have l: "length (messages talked) = 2" by (simp add: talked_eq)
  from failed_exchange_restores_history [OF h1 h2] h1 h2 l show ?thesis by simp
qed

text \<open>
  C5, as the code has it. When the history is empty by the time a handler of \<^verbatim>\<open>chat\<close>
  rolls the turn back (other code cleared it while the exchange ran), the rollback leaves
  the session as it is, with the history empty, but \<^verbatim>\<open>chat\<close> does not handle it: the
  handler prints its error line, \<^verbatim>\<open>list.pop\<close> raises \<^verbatim>\<open>IndexError\<close>, and that exception
  leaves \<^verbatim>\<open>chat\<close> in place of the error text.
\<close>

theorem rollback_of_empty_history_leaves_chat:
  assumes "returned (chat_try ev (record_user user_input s)) = Inl e"
    and "e \<noteq> KeyboardInterrupt"
    and "messages (meanwhile (record_user user_input s)) = []"
  shows "returned (chat_during meanwhile ev user_input s) = Inl IndexError
    \<and> state_after (chat_during meanwhile ev user_input s) = meanwhile (record_user user_input s)
    \<and> messages (state_after (chat_during meanwhile ev user_input s)) = []
    \<and> (\<exists>error_msg. printed_by (chat_during meanwhile ev user_input s) =
          printed_by (chat_try ev (record_user user_input s)) @
            [PrintLine (''Error: '' @ error_msg)])"
proof -
  from chat_except_empty [OF assms(2) assms(3)] obtain msg where
    "chat_except ev e (meanwhile (record_user user_input s))
        (printed_by (chat_try ev (record_user user_input s))) =
      (Inl IndexError, meanwhile (record_user user_input s),
       printed_by (chat_try ev (record_user user_input s)) @ [PrintLine (''Error: '' @ msg)])"
    by blast
  with chat_during_failed [OF assms(1)] have
    "chat_during meanwhile ev user_input s =
      (Inl IndexError, meanwhile (record_user user_input s),
       printed_by (chat_try ev (record_user user_input s)) @ [PrintLine (''Error: '' @ msg)])"
    by simp
  with assms(3) show ?thesis by simp
qed

theorem rollback_of_empty_history_leaves_chat_witness:
  "returned (chat_try (serve [hi_line, ''data: 5''] None) (record_user ''again'' talked)) =
     Inl TypeError
   \<and> TypeError \<noteq> KeyboardInterrupt
   \<and> messages (cleared (record_user ''again'' talked)) = []
   \<and> returned (chat_during cleared (serve [hi_line, ''data: 5''] None) ''again'' talked) =
       Inl IndexError
   \<and> messages (state_after
        (chat_during cleared (serve [hi_line, ''data: 5''] None) ''again'' talked)) = []"
proof -
  have h1: "returned (chat_try (serve [hi_line, ''data: 5''] None) (record_user ''again'' talked))
      = Inl TypeError"
    by (simp add: sample_defs talked_eq)
  have h2: "TypeError \<noteq> KeyboardInterrupt" by simp
  have h3: "messages (cleared (record_user ''again'' talked)) = []"
    by (simp add: cleared_def clear_conversation_def)
  from rollback_of_empty_history_leaves_chat [where meanwhile = cleared, OF h1 h2 h3] h1 h2 h3
  show ?thesis by blast
qed

text \<open>
  The claim has the rollback of an empty history handled. Here \<^verbatim>\<open>requests.post\<close> times
  out on a new chatbot whose history was cleared in the meantime: \<^verbatim>\<open>chat\<close> raises
  \<^verbatim>\<open>IndexError\<close>.
\<close>

theorem chat_raises_on_cleared_history:
  "messages (cleared (record_user ''hello'' chatbot)) = []
   \<and> chat_during cleared (refuse (Timeout ''read timed out'')) ''hello'' chatbot =
       (Inl IndexError, cleared (record_user ''hello'' chatbot),
        [PrintLine ''Error: Request timed out''])"
  by (simp add: cleared_def clear_conversation_def chat_during_def sample_defs)

text \<open>
  C6. The line \<^verbatim>\<open>data: [DONE]\<close> leaves the loop by \<^verbatim>\<open>break\<close> with the output and
  \<^verbatim>\<open>assistant_message\<close> unchanged, and the loop ends there without an exception: neither
  the lines that follow it nor the way the body ends have any effect on the result.
\<close>

theorem done_line_ends_stream:
  assumes "decode_utf8 ev ''data: [DONE]'' = Some ''data: [DONE]''"
  shows "loop_body ev ''data: [DONE]'' st = (Break, st)
    \<and> for_lines ev (''data: [DONE]'' # rest) ending st = (None, st)
    \<and> for_lines ev (before @ ''data: [DONE]'' # rest) ending st =
        for_lines ev (before @ [''data: [DONE]'']) None st"
proof -
  have stop: "loop_body ev ''data: [DONE]'' st' = (Break, st')" for st'
    using assms by (simp add: loop_body_def)
  from stop for_lines_stop [OF stop] for_lines_cut [of ev "''data: [DONE]''", OF stop]
  show ?thesis by simp
qed

theorem done_line_ends_stream_witness:
  "decode_utf8 (serve [] None) ''data: [DONE]'' = Some ''data: [DONE]''
   \<and> loop_body (serve [] None) ''data: [DONE]'' ([PrintContent (JStr ''Hi'')], ''Hi'') =
       (Break, [PrintContent (JStr ''Hi'')], ''Hi'')
   \<and> for_lines (serve [] None) (''data: [DONE]'' # [hi_line, ''data: 5''])
        (Some (Timeout ''read timed out'')) ([PrintContent (JStr ''Hi'')], ''Hi'') =
       (None, [PrintContent (JStr ''Hi'')], ''Hi'')"
proof -
  have h: "decode_utf8 (serve [] None) ''data: [DONE]'' = Some ''data: [DONE]''"
    by (simp add: serve_def ascii_decode_def)
  from done_line_ends_stream [OF h, of "([PrintContent (JStr ''Hi'')], ''Hi'')"
      "[hi_line, ''data: 5'']" "Some (Timeout ''read timed out'')" "[]"] h
  show ?thesis by simp
qed

text \<open>
  C7, at the line \<^verbatim>\<open>data: NaN\<close>. The payload is not valid JSON, but \<^verbatim>\<open>json.loads\<close>
  accepts it as a float; the membership test \<^verbatim>\<open>'choices' in event_data\<close> then raises
  \<^verbatim>\<open>TypeError\<close>, which the inner handler does not catch, and the handler of line 128
  ends the exchange: the fragment printed before is lost, the turn is popped and
  \<^verbatim>\<open>chat\<close> returns an error text. A chunk cut in the middle of a character ends the
  exchange as well, at the decoding of line 84.
\<close>

theorem non_json_payload_aborts_exchange:
  "decode_utf8 (serve [hi_line, ''data: NaN'', hi_line] None) ''data: NaN'' = Some ''data: NaN''
   \<and> prefix ''data: '' ''data: NaN''
   \<and> drop 6 ''data: NaN'' \<noteq> ''[DONE]''
   \<and> json_loads (serve [hi_line, ''data: NaN'', hi_line] None) (drop 6 ''data: NaN'') =
       Inr (JFloat ''NaN'')
   \<and> loop_body (serve [hi_line, ''data: NaN'', hi_line] None) ''data: NaN''
        ([PrintContent (JStr ''Hi'')], ''Hi'') =
       (Raise TypeError, [PrintContent (JStr ''Hi'')], ''Hi'')
   \<and> chat (serve [hi_line, ''data: NaN'', hi_line] None) ''hello'' chatbot =
       (Inr ''Error: TypeError'', chatbot,
        [PrintContent (JStr ''Hi''), PrintLine ''Error: Error: TypeError''])
   \<and> prefix ''data: '' truncated_line
   \<and> loop_body (serve [] None) truncated_line ([PrintContent (JStr ''Hi'')], ''Hi'') =
       (Raise UnicodeDecodeError, [PrintContent (JStr ''Hi'')], ''Hi'')
   \<and> chat (serve [hi_line, truncated_line, hi_line] None) ''hello'' chatbot =
       (Inr ''Error: UnicodeDecodeError'', chatbot,
        [PrintContent (JStr ''Hi''), PrintLine ''Error: Error: UnicodeDecodeError''])"
  by (simp add: sample_defs truncated_line_def)

text \<open>
  C8, as the code has it. A blank line, and a line that decodes to a text that does not
  begin with \<^verbatim>\<open>data: \<close>, changes neither the output nor \<^verbatim>\<open>assistant_message\<close>, and the
  loop goes on with the next line.
\<close>

theorem other_line_is_ignored:
  assumes "line = [] \<or> (\<exists>text. decode_utf8 ev line = Some text \<and> \<not> prefix ''data: '' text)"
  shows "loop_body ev line st = (Next, st)
    \<and> for_lines ev (line # rest) ending st = for_lines ev rest ending st"
proof -
  from assms have "loop_body ev line st = (Next, st)"
    by (auto simp: loop_body_def)
  then show ?thesis by simp
qed

theorem other_line_is_ignored_witness:
  "(''event: ping'' = [] \<or> (\<exists>text. decode_utf8 (serve [] None) ''event: ping'' = Some text
        \<and> \<not> prefix ''data: '' text))
   \<and> loop_body (serve [] None) ''event: ping'' ([], []) = (Next, [], [])
   \<and> loop_body (serve [] None) [] ([], []) = (Next, [], [])
   \<and> for_lines (serve [] None) [''event: ping'', hi_line] None ([], []) =
       (None, [PrintContent (JStr ''Hi'')], ''Hi'')"
proof -
  have "decode_utf8 (serve [] None) ''event: ping'' = Some ''event: ping''
      \<and> \<not> prefix ''data: '' ''event: ping''"
    by (simp add: serve_def ascii_decode_def)
  then have h: "''event: ping'' = [] \<or> (\<exists>text. decode_utf8 (serve [] None) ''event: ping'' = Some text
        \<and> \<not> prefix ''data: '' text)"
    by blast
  have b: "loop_body (serve [] None) [] ([], []) = (Next, [], [])"
    using other_line_is_ignored [of "[]" "serve [] None" "([], [])"] by simp
  have r: "for_lines (serve [] None) [hi_line] None ([], []) =
      (None, [PrintContent (JStr ''Hi'')], ''Hi'')"
    by (simp add: sample_defs)
  from other_line_is_ignored [OF h, of "([], [])" "[hi_line]" None] r
  have "loop_body (serve [] None) ''event: ping'' ([], []) = (Next, [], [])
    \<and> for_lines (serve [] None) [''event: ping'', hi_line] None ([], []) =
       (None, [PrintContent (JStr ''Hi'')], ''Hi'')"
    by simp
  with h b show ?thesis by blast
qed

text \<open>
  A line that is not UTF-8 does not begin with \<^verbatim>\<open>data: \<close> either. Decoding it raises
  \<^verbatim>\<open>UnicodeDecodeError\<close> outside the inner \<^verbatim>\<open>try\<close>, and the exchange ends with an
  error text and the turn rolled back.
\<close>

theorem undecodable_line_aborts_exchange:
  "[CHR 0xFF] \<noteq> []
   \<and> \<not> prefix ''data: '' [CHR 0xFF]
   \<and> decode_utf8 (serve [] None) [CHR 0xFF] = None
   \<and> loop_body (serve [] None) [CHR 0xFF] ([], []) = (Raise UnicodeDecodeError, [], [])
   \<and> chat (serve [hi_line, [CHR 0xFF], hi_line] None) ''hello'' chatbot =
       (Inr ''Error: UnicodeDecodeError'', chatbot,
        [PrintContent (JStr ''Hi''), PrintLine ''Error: Error: UnicodeDecodeError''])"
  by (simp add: sample_defs)

text \<open>
  C9. \<^verbatim>\<open>clear_conversation\<close> empties the history and changes nothing else, so the
  system prompt stays, also one set just before; the message list built next is the
  single system entry, and the next \<^verbatim>\<open>chat\<close> sends it followed by its user message only.
\<close>

theorem clear_conversation_keeps_system_prompt:
  "fst (clear_conversation s) = s\<lparr>messages := []\<rparr>
   \<and> messages (fst (clear_conversation s)) = []
   \<and> system_message (fst (clear_conversation s)) = system_message s
   \<and> full_messages (fst (clear_conversation s)) =
       [\<lparr>role = ''system'', content = system_message s\<rparr>]
   \<and> full_messages (fst (clear_conversation (set_system_message message s))) =
       [\<lparr>role = ''system'', content = message\<rparr>]
   \<and> payload_messages (build_request (record_user user_input (fst (clear_conversation s)))) =
       [\<lparr>role = ''system'', content = system_message s\<rparr>,
        \<lparr>role = ''user'', content = user_input\<rparr>]"
  by (simp add: clear_conversation_def set_system_message_def full_messages_def
      build_request_def record_user_def)

text \<open>
  C10. When the exchange succeeds and the loop printed no content fragment, \<^verbatim>\<open>chat\<close>
  returns the empty string and appends, after the user message, an assistant message
  whose content is the empty string.
\<close>

theorem stream_without_fragments_gives_empty_reply:
  assumes "post ev (build_request (record_user user_input s)) = Inr resp"
    and "raise_for_status resp = None"
    and "for_lines ev (iter_lines resp) (iter_end resp) ([], []) = (None, out, acc)"
    and "fragments out = []"
  shows "returned (chat ev user_input s) = Inr []
    \<and> messages (state_after (chat ev user_input s)) =
        messages s @ [\<lparr>role = ''user'', content = user_input\<rparr>,
                      \<lparr>role = ''assistant'', content = []\<rparr>]"
proof -
  from for_lines_None [OF assms(3)] obtain fs where
    fs: "out = map (\<lambda>t. PrintContent (JStr t)) fs" "acc = concat fs" by auto
  from fs(1) assms(4) have "fs = []" by (simp add: fragments_contents)
  with fs have acc: "acc = []" by simp
  have "chat_try ev (record_user user_input s) =
      (Inr acc,
       (record_user user_input s)\<lparr>messages := messages (record_user user_input s) @
          [\<lparr>role = ''assistant'', content = acc\<rparr>]\<rparr>,
       out @ [PrintNewline])"
    by (rule chat_try_succeeds [OF assms(1) assms(2) assms(3)])
  then show ?thesis by (simp add: chat_def acc record_user_def)
qed

theorem stream_without_fragments_gives_empty_reply_witness:
  "post (serve quiet_lines None) (build_request (record_user ''hello'' chatbot)) = Inr quiet_response
   \<and> raise_for_status quiet_response = None
   \<and> for_lines (serve quiet_lines None) (iter_lines quiet_response) (iter_end quiet_response)
        ([], []) = (None, [], [])
   \<and> fragments [] = []
   \<and> returned (chat (serve quiet_lines None) ''hello'' chatbot) = Inr []
   \<and> messages (state_after (chat (serve quiet_lines None) ''hello'' chatbot)) =
       [\<lparr>role = ''user'', content = ''hello''\<rparr>, \<lparr>role = ''assistant'', content = []\<rparr>]"
proof -
  have h1: "post (serve quiet_lines None) (build_request (record_user ''hello'' chatbot)) =
      Inr quiet_response"
    by (simp add: serve_def quiet_response_def)
  have h2: "raise_for_status quiet_response = None"
    by (simp add: quiet_response_def)
  have h3: "for_lines (serve quiet_lines None) (iter_lines quiet_response)
      (iter_end quiet_response) ([], []) = (None, [], [])"
    by (simp add: quiet_response_def quiet_lines_def sample_defs)
  have h4: "fragments [] = []" by simp
  have m: "messages chatbot = []" by (simp add: chatbot_def init_def)
  from stream_without_fragments_gives_empty_reply [OF h1 h2 h3 h4] h1 h2 h3 h4 m
  show ?thesis by simp
qed

end
